theory Spec2Isabelle
  imports Complex_Main
begin

section \<open>The action executor of \<^verbatim>\<open>utils/execute_action.py\<close>\<close>

text \<open>
  The module validates one action (a value parsed from JSON), asks the device bridge
  whether a device is connected, issues one bridge command, appends one line to a log
  file and returns a result dictionary. The embedding below follows the Python text
  function by function. Everything the code does beyond returning a value (calls of the
  device bridge, the sleep, the log write, reading standard input, printing) is recorded
  as an event of a trace, and every \<^verbatim>\<open>raise\<close> is a value.
\<close>

subsection \<open>Values\<close>

text \<open>
  A Python \<^verbatim>\<open>float\<close> as \<^verbatim>\<open>json.loads\<close> produces it: a finite value (kept as
  the rational number it denotes) or one of the three special values, which the parser
  accepts as \<^verbatim>\<open>NaN\<close>, \<^verbatim>\<open>Infinity\<close> and \<^verbatim>\<open>-Infinity\<close>. The code only asks for the type of
  a float and truncates it with \<^verbatim>\<open>int()\<close>; no floating-point arithmetic is performed.
\<close>

datatype pyfloat = Finite rat | NaN | PosInf | NegInf

text \<open>
  The values \<^verbatim>\<open>json.loads\<close> returns. A dictionary is an association list whose keys are
  distinct (the parser keeps one entry per key); characters stand for code points below
  256. An integer is one that the interpreter converts to its decimal text: from Python
  3.11 on the parser produces no integer of more digits than
  \<^verbatim>\<open>sys.get_int_max_str_digits()\<close>, and \<^verbatim>\<open>str\<close> raises on one.
\<close>

datatype json =
    JNull
  | JBool bool
  | JInt int
  | JFloat pyfloat
  | JStr string
  | JList "json list"
  | JDict "(string \<times> json) list"

text \<open>
  An exception object: its class name and the text \<^verbatim>\<open>str(e)\<close> gives. \<open>PyException\<close> is
  an instance of \<^verbatim>\<open>Exception\<close>; \<open>PyBaseException\<close> is an instance of \<^verbatim>\<open>BaseException\<close>
  that is not one of \<^verbatim>\<open>Exception\<close>, such as \<^verbatim>\<open>KeyboardInterrupt\<close> and \<^verbatim>\<open>SystemExit\<close>.
\<close>

datatype py_exception =
    PyException (exc_class: string) (exc_str: string)
  | PyBaseException (exc_class: string) (exc_str: string)

text \<open>\<^verbatim>\<open>isinstance(e, Exception)\<close>\<close>

fun is_Exception :: "py_exception \<Rightarrow> bool" where
  "is_Exception (PyException c s) = True"
| "is_Exception (PyBaseException c s) = False"

text \<open>\<^verbatim>\<open>isinstance(e, json.JSONDecodeError)\<close>\<close>

fun is_JSONDecodeError :: "py_exception \<Rightarrow> bool" where
  "is_JSONDecodeError (PyException c s) = (c = ''JSONDecodeError'')"
| "is_JSONDecodeError (PyBaseException c s) = False"

datatype 'a outcome = Returns 'a | Raises py_exception

text \<open>
  An \<^verbatim>\<open>ExecutionResult\<close>: a dictionary with string keys and string values, in the order
  the code writes the keys.
\<close>

type_synonym result = "(string \<times> string) list"

subsection \<open>Effects and the environment\<close>

datatype event =
    CheckDevice
  | RunAdb "string list"
  | Sleep nat
  | LogAttempt string
  | LogWritten string
  | ReadStdin
  | JsonLoads string
  | Print "result option" "nat option"

text \<open>
  \<^item> \<open>CheckDevice\<close>: \<^verbatim>\<open>adb_helper.check_device_connected()\<close> was called;
  \<^item> \<open>RunAdb args\<close>: \<^verbatim>\<open>adb_helper.run_adb(args)\<close> was called;
  \<^item> \<open>Sleep n\<close>: \<^verbatim>\<open>time.sleep(n)\<close> was called;
  \<^item> \<open>LogAttempt entry\<close>: \<^verbatim>\<open>log_action\<close> entered its \<^verbatim>\<open>try\<close> block to write \<open>entry\<close>;
  \<^item> \<open>LogWritten entry\<close>: \<open>entry\<close> was appended to \<^verbatim>\<open>logs/execution.log\<close>;
  \<^item> \<open>ReadStdin\<close>: \<^verbatim>\<open>sys.stdin.read()\<close>;
  \<^item> \<open>JsonLoads s\<close>: \<^verbatim>\<open>json.loads(s)\<close> was called;
  \<^item> \<open>Print v indent\<close>: \<^verbatim>\<open>print(json.dumps(v, indent=indent))\<close>, where \<open>None\<close> for \<open>v\<close>
    is Python's \<^verbatim>\<open>None\<close>.
\<close>

text \<open>
  What the module does not define itself is a parameter. \<^verbatim>\<open>utils/adb_helper.py\<close> is
  imported but is not part of the sources at hand: its two functions are the fields
  \<open>check_device_connected\<close> and \<open>run_adb\<close>, each of which may answer or raise, as any
  Python call may. Exceptions arise where a call is made: an interrupt of the process is
  the \<^verbatim>\<open>KeyboardInterrupt\<close> that the call running at that moment raises. The other fields are the run-time library: the clock reading already
  formatted by \<^verbatim>\<open>strftime\<close>, the file system behind the log write (\<open>None\<close> when
  \<^verbatim>\<open>os.makedirs\<close>, \<^verbatim>\<open>open\<close> and \<^verbatim>\<open>write\<close> all succeed, the exception otherwise),
  \<^verbatim>\<open>time.sleep\<close> (\<open>None\<close> when it returns, the exception when it is interrupted),
  \<^verbatim>\<open>repr\<close> on values that are not scalars, \<^verbatim>\<open>int\<close> on a string (\<open>Inl\<close> carries the text
  of its \<^verbatim>\<open>ValueError\<close>), and \<^verbatim>\<open>json.loads\<close>,
  which returns the parsed value or raises: a \<^verbatim>\<open>JSONDecodeError\<close> on a text that is not
  JSON, and other exceptions too (a \<^verbatim>\<open>RecursionError\<close> on deep nesting, a \<^verbatim>\<open>ValueError\<close>
  on an integer beyond the digit limit).
\<close>

record world =
  check_device_connected :: "py_exception + bool"
  run_adb :: "string list \<Rightarrow> py_exception + (string \<times> string \<times> int)"
  now :: string
  fs_append :: "string \<Rightarrow> py_exception option"
  time_sleep :: "nat \<Rightarrow> py_exception option"
  py_repr :: "json \<Rightarrow> string"
  int_of_str :: "string \<Rightarrow> string + int"
  json_loads :: "string \<Rightarrow> py_exception + json"

text \<open>
  A statement sequence that may raise and that extends the trace of events: it takes the
  trace so far and gives its outcome with the extended trace.
\<close>

type_synonym 'a prog = "event list \<Rightarrow> 'a outcome \<times> event list"

definition pret :: "'a \<Rightarrow> 'a prog" where
  "pret x = (\<lambda>t. (Returns x, t))"

definition plift :: "'a outcome \<Rightarrow> 'a prog" where
  "plift r = (\<lambda>t. (r, t))"

definition pbind :: "'a prog \<Rightarrow> ('a \<Rightarrow> 'b prog) \<Rightarrow> 'b prog" where
  "pbind m f = (\<lambda>t. case m t of
       (Returns x, t') \<Rightarrow> f x t'
     | (Raises e, t') \<Rightarrow> (Raises e, t'))"

text \<open>
  \<^verbatim>\<open>try: m  except Exception as e: h(e)\<close>. The handler runs for an instance of
  \<^verbatim>\<open>Exception\<close> only; any other exception passes through the statement.
\<close>

definition ptry :: "'a prog \<Rightarrow> (py_exception \<Rightarrow> 'a prog) \<Rightarrow> 'a prog" where
  "ptry m h = (\<lambda>t. case m t of
       (Returns x, t') \<Rightarrow> (Returns x, t')
     | (Raises e, t') \<Rightarrow> if is_Exception e then h e t' else (Raises e, t'))"

definition emit :: "event \<Rightarrow> unit prog" where
  "emit ev = (\<lambda>t. (Returns (), t @ [ev]))"

definition call_check_device_connected :: "world \<Rightarrow> bool prog" where
  "call_check_device_connected w = (\<lambda>t.
     (case check_device_connected w of
        Inl e \<Rightarrow> Raises e
      | Inr answer \<Rightarrow> Returns answer,
      t @ [CheckDevice]))"

definition call_run_adb :: "world \<Rightarrow> string list \<Rightarrow> (string \<times> string \<times> int) prog" where
  "call_run_adb w args = (\<lambda>t.
     (case run_adb w args of
        Inl e \<Rightarrow> Raises e
      | Inr r \<Rightarrow> Returns r,
      t @ [RunAdb args]))"

definition call_sleep :: "world \<Rightarrow> nat \<Rightarrow> unit prog" where
  "call_sleep w seconds = (\<lambda>t.
     (case time_sleep w seconds of
        Some e \<Rightarrow> Raises e
      | None \<Rightarrow> Returns (),
      t @ [Sleep seconds]))"

subsection \<open>Python built-ins the code uses\<close>

text \<open>
  \<^verbatim>\<open>str(n)\<close> for an integer: decimal digits, a minus sign for a negative number (for the
  integers of \<open>json\<close>, which are within the digit limit of the interpreter).
\<close>

definition digit_char :: "nat \<Rightarrow> char" where
  "digit_char d = char_of (48 + d)"

function str_nat :: "nat \<Rightarrow> string" where
  "str_nat n = (if n < 10 then [digit_char n] else str_nat (n div 10) @ [digit_char (n mod 10)])"
  by pat_completeness auto
termination
  by (relation "measure (\<lambda>n. n)") auto

declare str_nat.simps [simp del]

definition str_int :: "int \<Rightarrow> string" where
  "str_int i = (if i < 0 then CHR ''-'' # str_nat (nat (- i)) else str_nat (nat i))"

text \<open>
  \<^verbatim>\<open>str(v)\<close>, as an f-string applies it: a string is itself, the scalars have fixed
  renderings, a float, a list and a dictionary are rendered by \<^verbatim>\<open>repr\<close>.
\<close>

fun py_str :: "world \<Rightarrow> json \<Rightarrow> string" where
  "py_str w (JStr s) = s"
| "py_str w (JInt i) = str_int i"
| "py_str w (JBool b) = (if b then ''True'' else ''False'')"
| "py_str w JNull = ''None''"
| "py_str w v = py_repr w v"

text \<open>\<^verbatim>\<open>v[key]\<close> for a string key.\<close>

fun getitem :: "json \<Rightarrow> string \<Rightarrow> json outcome" where
  "getitem (JDict kvs) key =
     (case map_of kvs key of
        Some v \<Rightarrow> Returns v
      | None \<Rightarrow> Raises (PyException ''KeyError'' ([CHR 0x27] @ key @ [CHR 0x27])))"
| "getitem (JList xs) key =
     Raises (PyException ''TypeError'' ''list indices must be integers or slices, not str'')"
| "getitem (JStr s) key =
     Raises (PyException ''TypeError'' ''string indices must be integers'')"
| "getitem v key =
     Raises (PyException ''TypeError'' ''object is not subscriptable'')"

text \<open>\<^verbatim>\<open>isinstance(c, (int, float))\<close>: \<^verbatim>\<open>bool\<close> is a subclass of \<^verbatim>\<open>int\<close>.\<close>

fun is_int_or_float :: "json \<Rightarrow> bool" where
  "is_int_or_float (JInt i) = True"
| "is_int_or_float (JFloat f) = True"
| "is_int_or_float (JBool b) = True"
| "is_int_or_float v = False"

text \<open>
  \<^verbatim>\<open>int(v)\<close>: a float is truncated towards zero, and the special floats raise; a string
  is parsed by the run-time library; the other values have no conversion.
\<close>

fun py_int :: "world \<Rightarrow> json \<Rightarrow> int outcome" where
  "py_int w (JInt i) = Returns i"
| "py_int w (JBool b) = Returns (if b then 1 else 0)"
| "py_int w (JFloat (Finite q)) = Returns (if 0 \<le> q then \<lfloor>q\<rfloor> else \<lceil>q\<rceil>)"
| "py_int w (JFloat NaN) =
     Raises (PyException ''ValueError'' ''cannot convert float NaN to integer'')"
| "py_int w (JFloat PosInf) =
     Raises (PyException ''OverflowError'' ''cannot convert float infinity to integer'')"
| "py_int w (JFloat NegInf) =
     Raises (PyException ''OverflowError'' ''cannot convert float infinity to integer'')"
| "py_int w (JStr s) =
     (case int_of_str w s of
        Inl message \<Rightarrow> Raises (PyException ''ValueError'' message)
      | Inr i \<Rightarrow> Returns i)"
| "py_int w v =
     Raises (PyException ''TypeError'' ''int() argument must be a string, a bytes-like object or a real number'')"

text \<open>
  \<^verbatim>\<open>x, y = v\<close>: unpacking iterates the value. A list gives its elements, a string its
  characters, a dictionary its keys; exactly two are required.
\<close>

fun py_iter :: "json \<Rightarrow> json list outcome" where
  "py_iter (JList xs) = Returns xs"
| "py_iter (JStr s) = Returns (map (\<lambda>c. JStr [c]) s)"
| "py_iter (JDict kvs) = Returns (map (\<lambda>kv. JStr (fst kv)) kvs)"
| "py_iter v = Raises (PyException ''TypeError'' ''cannot unpack non-iterable object'')"

definition unpack2 :: "json \<Rightarrow> (json \<times> json) outcome" where
  "unpack2 v =
     (case py_iter v of
        Raises e \<Rightarrow> Raises e
      | Returns [x, y] \<Rightarrow> Returns (x, y)
      | Returns xs \<Rightarrow>
          Raises (PyException ''ValueError''
            (if length xs < 2 then ''not enough values to unpack'' else ''too many values to unpack'')))"

text \<open>\<^verbatim>\<open>text.replace(old, new)\<close> where \<open>old\<close> is a single character.\<close>

primrec str_replace :: "string \<Rightarrow> char \<Rightarrow> string \<Rightarrow> string" where
  "str_replace [] old new = []"
| "str_replace (c # cs) old new = (if c = old then new else [c]) @ str_replace cs old new"

text \<open>
  \<^verbatim>\<open>v.replace(" ", "%s")\<close>: only a string has the method; on every other value of
  \<open>json\<close> the attribute lookup raises.
\<close>

fun py_replace_space :: "json \<Rightarrow> string outcome" where
  "py_replace_space (JStr s) = Returns (str_replace s (CHR '' '') ''%s'')"
| "py_replace_space v =
     Raises (PyException ''AttributeError'' ''object has no attribute replace'')"

text \<open>\<^verbatim>\<open>s.strip()\<close>: the white space among the code points below 256.\<close>

definition is_space :: "char \<Rightarrow> bool" where
  "is_space c = (of_char c \<in> {9, 10, 11, 12, 13, 28, 29, 30, 31, 32, 133, 160 :: nat})"

definition py_strip :: "string \<Rightarrow> string" where
  "py_strip s = rev (dropWhile is_space (rev (dropWhile is_space s)))"

subsection \<open>\<^verbatim>\<open>log_action\<close> (lines 29 to 46)\<close>

text \<open>
  The entry is formatted first; the write is attempted inside \<^verbatim>\<open>try\<close>, and the bare
  \<^verbatim>\<open>except: pass\<close> discards whatever it raises.
\<close>

definition log_entry :: "world \<Rightarrow> string \<Rightarrow> string \<Rightarrow> string \<Rightarrow> string" where
  "log_entry w action_type details status =
     ''['' @ now w @ ''] ACTION: '' @ action_type @ ''('' @ details @ '') -> '' @ status @ [CHR 0x0A]"

definition log_action :: "world \<Rightarrow> string \<Rightarrow> string \<Rightarrow> string \<Rightarrow> unit prog" where
  "log_action w action_type details status =
     pbind (emit (LogAttempt (log_entry w action_type details status))) (\<lambda>_.
       case fs_append w (log_entry w action_type details status) of
         None \<Rightarrow> emit (LogWritten (log_entry w action_type details status))
       | Some e \<Rightarrow> pret ())"

subsection \<open>\<^verbatim>\<open>validate_action\<close> (lines 49 to 87)\<close>

definition valid_actions :: "string list" where
  "valid_actions = [''tap'', ''type'', ''home'', ''back'', ''wait'', ''done'']"

text \<open>The rendering of the list \<open>valid_actions\<close> in the f-string of line 69.\<close>

definition valid_actions_repr :: string where
  "valid_actions_repr = ''['tap', 'type', 'home', 'back', 'wait', 'done']''"

fun is_dict :: "json \<Rightarrow> bool" where
  "is_dict (JDict kvs) = True"
| "is_dict v = False"

fun is_list :: "json \<Rightarrow> bool" where
  "is_list (JList xs) = True"
| "is_list v = False"

fun is_str :: "json \<Rightarrow> bool" where
  "is_str (JStr s) = True"
| "is_str v = False"

fun py_len :: "json \<Rightarrow> nat" where
  "py_len (JList xs) = length xs"
| "py_len (JStr s) = length s"
| "py_len (JDict kvs) = length kvs"
| "py_len v = 0"

fun list_items :: "json \<Rightarrow> json list" where
  "list_items (JList xs) = xs"
| "list_items v = []"

text \<open>\<^verbatim>\<open>key in action\<close>, for a dictionary.\<close>

fun has_key :: "json \<Rightarrow> string \<Rightarrow> bool" where
  "has_key (JDict kvs) key = (map_of kvs key \<noteq> None)"
| "has_key v key = False"

text \<open>
  The subscripts of lines 65, 75 and 84 are read after the membership test of the same
  key has passed, on a value known to be a dictionary.
\<close>

fun item :: "json \<Rightarrow> string \<Rightarrow> json" where
  "item (JDict kvs) key = (case map_of kvs key of Some v \<Rightarrow> v | None \<Rightarrow> JNull)"
| "item v key = JNull"

definition validate_action :: "world \<Rightarrow> json \<Rightarrow> bool \<times> string" where
  "validate_action w action =
    (if \<not> is_dict action then (False, ''Action must be a JSON object'')
     else if \<not> has_key action ''action'' then (False, ''Missing 'action' field'')
     else
       let action_type = item action ''action'' in
       if action_type \<notin> set (map JStr valid_actions) then
         (False, ''Invalid action type '' @ [CHR 0x27] @ py_str w action_type @ [CHR 0x27]
                   @ ''. Must be one of: '' @ valid_actions_repr)
       else if action_type = JStr ''tap'' then
         (if \<not> has_key action ''coordinates'' then
            (False, ''tap action requires 'coordinates' field'')
          else
            let coords = item action ''coordinates'' in
            if \<not> is_list coords \<or> py_len coords \<noteq> 2 then
              (False, ''coordinates must be [x, y] array'')
            else if \<not> list_all is_int_or_float (list_items coords) then
              (False, ''coordinates must be numeric'')
            else (True, ''''))
       else if action_type = JStr ''type'' then
         (if \<not> has_key action ''text'' then
            (False, ''type action requires 'text' field'')
          else if \<not> is_str (item action ''text'') then
            (False, ''text must be a string'')
          else (True, ''''))
       else (True, ''''))"

subsection \<open>\<^verbatim>\<open>execute_action\<close> (lines 90 to 229)\<close>

definition error_result :: "string \<Rightarrow> result" where
  "error_result message = [(''status'', ''error''), (''message'', message)]"

definition success_result :: "string \<Rightarrow> string \<Rightarrow> result" where
  "success_result action_name message =
     [(''status'', ''success''), (''action'', action_name), (''message'', message)]"

text \<open>
  The body of the \<^verbatim>\<open>try\<close> statement, lines 124 to 222: one branch per action type, in
  the order of the \<^verbatim>\<open>if\<close>/\<^verbatim>\<open>elif\<close> chain. The chain has no \<^verbatim>\<open>else\<close>: a value that
  matches no branch leaves the statement and the function returns \<^verbatim>\<open>None\<close>.
\<close>

definition dispatch :: "world \<Rightarrow> json \<Rightarrow> json \<Rightarrow> result option prog" where
  "dispatch w action action_type =
    (if action_type = JStr ''tap'' then
       pbind (plift (getitem action ''coordinates'')) (\<lambda>coords.
       pbind (plift (unpack2 coords)) (\<lambda>(x0, y0).
       pbind (plift (py_int w x0)) (\<lambda>x.
       pbind (plift (py_int w y0)) (\<lambda>y.
       pbind (call_run_adb w [''shell'', ''input'', ''tap'', str_int x, str_int y])
         (\<lambda>(stdout, stderr, code).
           if code \<noteq> 0 then
             pbind (log_action w ''tap'' (str_int x @ '','' @ str_int y) (''ERROR: '' @ stderr)) (\<lambda>_.
             pret (Some (error_result (''Tap failed: '' @ stderr))))
           else
             pbind (log_action w ''tap'' (str_int x @ '','' @ str_int y) ''SUCCESS'') (\<lambda>_.
             pret (Some (success_result ''tap''
               (''Tapped at ('' @ str_int x @ '', '' @ str_int y @ '')'')))))))))
     else if action_type = JStr ''type'' then
       pbind (plift (getitem action ''text'')) (\<lambda>text_value.
       pbind (plift (py_replace_space text_value)) (\<lambda>encoded_text.
       pbind (call_run_adb w [''shell'', ''input'', ''text'', encoded_text])
         (\<lambda>(stdout, stderr, code).
           if code \<noteq> 0 then
             pbind (log_action w ''type'' (py_str w text_value) (''ERROR: '' @ stderr)) (\<lambda>_.
             pret (Some (error_result (''Type failed: '' @ stderr))))
           else
             pbind (log_action w ''type'' (py_str w text_value) ''SUCCESS'') (\<lambda>_.
             pret (Some (success_result ''type'' (''Typed: '' @ py_str w text_value)))))))
     else if action_type = JStr ''home'' then
       pbind (call_run_adb w [''shell'', ''input'', ''keyevent'', ''KEYCODE_HOME''])
         (\<lambda>(stdout, stderr, code).
           if code \<noteq> 0 then
             pbind (log_action w ''home'' [] (''ERROR: '' @ stderr)) (\<lambda>_.
             pret (Some (error_result (''Home failed: '' @ stderr))))
           else
             pbind (log_action w ''home'' [] ''SUCCESS'') (\<lambda>_.
             pret (Some (success_result ''home'' ''Pressed Home button''))))
     else if action_type = JStr ''back'' then
       pbind (call_run_adb w [''shell'', ''input'', ''keyevent'', ''KEYCODE_BACK''])
         (\<lambda>(stdout, stderr, code).
           if code \<noteq> 0 then
             pbind (log_action w ''back'' [] (''ERROR: '' @ stderr)) (\<lambda>_.
             pret (Some (error_result (''Back failed: '' @ stderr))))
           else
             pbind (log_action w ''back'' [] ''SUCCESS'') (\<lambda>_.
             pret (Some (success_result ''back'' ''Pressed Back button''))))
     else if action_type = JStr ''wait'' then
       pbind (call_sleep w 2) (\<lambda>_.
       pbind (log_action w ''wait'' ''2s'' ''SUCCESS'') (\<lambda>_.
       pret (Some (success_result ''wait'' ''Waited 2 seconds''))))
     else if action_type = JStr ''done'' then
       pbind (log_action w ''done'' [] ''SUCCESS'') (\<lambda>_.
       pret (Some (success_result ''done'' ''Goal achieved - task complete'')))
     else pret None)"

text \<open>The handler of lines 224 to 229.\<close>

definition on_exception :: "world \<Rightarrow> json \<Rightarrow> py_exception \<Rightarrow> result option prog" where
  "on_exception w action_type e =
     pbind (log_action w (py_str w action_type) [] (''ERROR: '' @ exc_str e)) (\<lambda>_.
     pret (Some (error_result (''Execution error: '' @ exc_str e))))"

text \<open>The \<^verbatim>\<open>try\<close> statement of lines 123 to 229: the body with its handler.\<close>

definition try_dispatch :: "world \<Rightarrow> json \<Rightarrow> json \<Rightarrow> result option prog" where
  "try_dispatch w action action_type =
     ptry (dispatch w action action_type) (on_exception w action_type)"

text \<open>
  The whole function. The connectivity check of line 116 stands before the \<^verbatim>\<open>try\<close>
  statement, and so does the subscript of line 114: what they raise is not handled here.
\<close>

definition execute_action :: "world \<Rightarrow> json \<Rightarrow> result option prog" where
  "execute_action w action =
    (let (is_valid, error_msg) = validate_action w action in
     if \<not> is_valid then pret (Some (error_result error_msg))
     else
       pbind (plift (getitem action ''action'')) (\<lambda>action_type.
       pbind (if action_type \<notin> set [JStr ''done'', JStr ''wait'']
              then call_check_device_connected w
              else pret True) (\<lambda>device_ok.
         if \<not> device_ok then pret (Some (error_result ''No Android device connected''))
         else try_dispatch w action action_type)))"

subsection \<open>\<^verbatim>\<open>main\<close> (lines 243 to 278)\<close>

text \<open>
  Lines 233 to 241 build the argument parser and call \<^verbatim>\<open>parse_args\<close>, which either returns
  the arguments or ends the process itself (status 2 on arguments it does not accept,
  status 0 after printing its help). The embedding starts where \<^verbatim>\<open>parse_args\<close> has
  returned.

  How the process ends: \<^verbatim>\<open>sys.exit(n)\<close>, or an exception nobody handles (the interpreter
  then prints a traceback to standard error and nothing more to standard output).
\<close>

datatype ending = Exit int | Uncaught py_exception

text \<open>
  \<open>json_flag\<close> is \<^verbatim>\<open>args.json\<close>: \<open>None\<close> when the flag is not given. \<open>stdin\<close> is what
  \<^verbatim>\<open>sys.stdin.read()\<close> returns, where it is called. \<^verbatim>\<open>if args.json:\<close> tests the truth of the value, and an
  empty string is false.
\<close>

definition read_action_json :: "string option \<Rightarrow> string \<Rightarrow> string prog" where
  "read_action_json json_flag stdin =
     (case json_flag of
        Some s \<Rightarrow> if s \<noteq> [] then pret s
                  else pbind (emit ReadStdin) (\<lambda>_. pret (py_strip stdin))
      | None \<Rightarrow> pbind (emit ReadStdin) (\<lambda>_. pret (py_strip stdin)))"

definition no_action_message :: string where
  "no_action_message = ''No action provided. Use --json flag or pipe JSON via stdin''"

text \<open>
  Lines 273 to 278: \<^verbatim>\<open>result["status"]\<close> and \<^verbatim>\<open>result.get("action")\<close> on the value
  \<^verbatim>\<open>execute_action\<close> returned.
\<close>

definition exit_for :: "result option \<Rightarrow> ending" where
  "exit_for res =
     (case res of
        None \<Rightarrow> Uncaught (PyException ''TypeError'' ''result is None: not subscriptable'')
      | Some r \<Rightarrow>
          (case map_of r ''status'' of
             None \<Rightarrow> Uncaught (PyException ''KeyError'' ''status'')
           | Some s \<Rightarrow>
               if s = ''error'' then Exit 3
               else if map_of r ''action'' = Some ''done'' then Exit 0
               else Exit 0))"

definition main :: "world \<Rightarrow> string option \<Rightarrow> string \<Rightarrow> event list \<Rightarrow> ending \<times> event list" where
  "main w json_flag stdin t =
     (case read_action_json json_flag stdin t of
        (Raises e, t1) \<Rightarrow> (Uncaught e, t1)
      | (Returns action_json, t1) \<Rightarrow>
          if action_json = [] then
            (Exit 1, t1 @ [Print (Some (error_result no_action_message)) None])
          else
            (case json_loads w action_json of
               Inl e \<Rightarrow>
                 if is_JSONDecodeError e then
                   (Exit 1, t1 @ [JsonLoads action_json,
                                  Print (Some (error_result (''Invalid JSON: '' @ exc_str e))) None])
                 else (Uncaught e, t1 @ [JsonLoads action_json])
             | Inr action \<Rightarrow>
                 (case execute_action w action (t1 @ [JsonLoads action_json]) of
                    (Raises e, t2) \<Rightarrow> (Uncaught e, t2)
                  | (Returns res, t2) \<Rightarrow> (exit_for res, t2 @ [Print res (Some 2)]))))"

subsection \<open>Notions the statements use\<close>

text \<open>
  The events one call of \<^verbatim>\<open>log_action\<close> adds to the trace: the attempt, and the written
  line when the file system accepts it.
\<close>

definition written :: "world \<Rightarrow> string \<Rightarrow> event list" where
  "written w entry =
     LogAttempt entry # (case fs_append w entry of None \<Rightarrow> [LogWritten entry] | Some e \<Rightarrow> [])"






text \<open>Two statement sequences have the same outcome, from whatever traces they start.\<close>

definition agree :: "'a prog \<Rightarrow> 'a prog \<Rightarrow> bool" where
  "agree m m' = (\<forall>t1 t2. fst (m t1) = fst (m' t2))"

subsection \<open>Example environments\<close>

text \<open>The text \<^verbatim>\<open>{"action":"done"}\<close>.\<close>

definition done_json :: string where
  "done_json = ''{'' @ [CHR 0x22] @ ''action'' @ [CHR 0x22] @ '':'' @ [CHR 0x22] @ ''done''
                 @ [CHR 0x22] @ ''}''"

text \<open>The text \<^verbatim>\<open>{"action":"home"}\<close>.\<close>

definition home_json :: string where
  "home_json = ''{'' @ [CHR 0x22] @ ''action'' @ [CHR 0x22] @ '':'' @ [CHR 0x22] @ ''home''
                 @ [CHR 0x22] @ ''}''"

text \<open>
  A device is connected, every bridge command exits with 0 and empty output, the log file
  is writable, the sleep is not interrupted. The parser of this environment knows four
  texts: \<^verbatim>\<open>{"action":"done"}\<close>, \<^verbatim>\<open>{"action":"home"}\<close>, \<^verbatim>\<open>{}\<close> and \<^verbatim>\<open>null\<close>; it
  rejects every other text with a \<^verbatim>\<open>JSONDecodeError\<close>.
\<close>

definition example_world :: world where
  "example_world =
     \<lparr>check_device_connected = Inr True,
      run_adb = (\<lambda>args. Inr ([], [], 0)),
      now = ''2025-01-01 12:00:00'',
      fs_append = (\<lambda>entry. None),
      time_sleep = (\<lambda>seconds. None),
      py_repr = (\<lambda>v. ''...''),
      int_of_str = (\<lambda>s. Inl ''invalid literal for int() with base 10''),
      json_loads = (\<lambda>s. if s = done_json then Inr (JDict [(''action'', JStr ''done'')])
                         else if s = home_json then Inr (JDict [(''action'', JStr ''home'')])
                         else if s = ''{}'' then Inr (JDict [])
                         else if s = ''null'' then Inr JNull
                         else Inl (PyException ''JSONDecodeError'' ''Expecting value''))\<rparr>"

text \<open>No device is connected.\<close>

definition no_device_world :: world where
  "no_device_world = example_world\<lparr>check_device_connected := Inr False\<rparr>"






section \<open>Properties\<close>

subsection \<open>Auxiliary facts\<close>

lemma pbind_pret: "pbind (pret x) f = f x"
  by (simp add: pbind_def pret_def)

lemma pbind_plift_Returns: "pbind (plift (Returns x)) f = f x"
  by (simp add: pbind_def plift_def)

lemma log_action_eq:
  "log_action w a d s t = (Returns (), t @ written w (log_entry w a d s))"
  by (simp add: log_action_def pbind_def emit_def pret_def written_def split: option.splits)

lemma on_exception_eq:
  "on_exception w a e t =
     (Returns (Some (error_result (''Execution error: '' @ exc_str e))),
      t @ written w (log_entry w (py_str w a) [] (''ERROR: '' @ exc_str e)))"
  by (simp add: on_exception_def pbind_def log_action_eq pret_def)





lemma written_no_check: "CheckDevice \<notin> set (written w entry)"
  by (simp add: written_def split: option.splits)

text \<open>What validation guarantees about an accepted value.\<close>

lemma validate_ok:
  assumes "fst (validate_action w action)"
  shows "\<exists>kvs s. action = JDict kvs \<and> map_of kvs ''action'' = Some (JStr s)
           \<and> s \<in> set valid_actions"
proof (cases action)
  case (JDict kvs)
  with assms show ?thesis
    by (cases "map_of kvs ''action''")
       (auto simp add: validate_action_def Let_def split: if_splits)
qed (use assms in \<open>simp_all add: validate_action_def\<close>)

lemma is_list_len2: "(is_list c \<and> py_len c = 2) = (\<exists>x y. c = JList [x, y])"
proof (cases c)
  case (JList xs)
  then show ?thesis
    by (cases xs; cases "tl xs"; cases "tl (tl xs)") auto
qed auto

lemma validate_tap:
  "map_of kvs ''action'' = Some (JStr ''tap'') \<Longrightarrow>
   validate_action w (JDict kvs) =
     (case map_of kvs ''coordinates'' of
        None \<Rightarrow> (False, ''tap action requires 'coordinates' field'')
      | Some c \<Rightarrow>
          if \<not> (is_list c \<and> py_len c = 2) then (False, ''coordinates must be [x, y] array'')
          else if \<not> list_all is_int_or_float (list_items c)
            then (False, ''coordinates must be numeric'')
          else (True, []))"
  by (simp add: validate_action_def valid_actions_def Let_def split: option.splits)


lemma execute_action_valid:
  assumes "map_of kvs ''action'' = Some a" and "fst (validate_action w (JDict kvs))"
  shows "execute_action w (JDict kvs) =
     pbind (if a \<notin> set [JStr ''done'', JStr ''wait'']
            then call_check_device_connected w else pret True)
       (\<lambda>device_ok.
          if \<not> device_ok then pret (Some (error_result ''No Android device connected''))
          else try_dispatch w (JDict kvs) a)"
proof -
  obtain b m where vm: "validate_action w (JDict kvs) = (b, m)"
    by (cases "validate_action w (JDict kvs)")
  with assms have "b" by simp
  with vm assms(1) show ?thesis
    by (simp add: execute_action_def pbind_plift_Returns)
qed
















lemma str_int_0: "str_int 0 = ''0''"
  by code_simp

lemma str_int_1: "str_int 1 = ''1''"
  by code_simp

text \<open>
  Nothing but the log write consults the file system, and no outcome depends on the trace:
  two statement sequences agree when they have the same outcome from any two traces.
\<close>

lemma agree_pret: "agree (pret x) (pret x)"
  by (simp add: agree_def pret_def)

lemma agree_plift: "agree (plift r) (plift r)"
  by (simp add: agree_def plift_def)

lemma agree_pbind:
  assumes "agree m m'" and "\<And>x. agree (f x) (f' x)"
  shows "agree (pbind m f) (pbind m' f')"
  unfolding agree_def
proof (intro allI)
  fix t1 t2
  from assms(1) have o: "fst (m t1) = fst (m' t2)"
    by (simp add: agree_def)
  show "fst (pbind m f t1) = fst (pbind m' f' t2)"
  proof (cases "m t1")
    case (Pair o1 u1)
    obtain o2 u2 where p2: "m' t2 = (o2, u2)" by (cases "m' t2")
    with Pair o have eq: "o2 = o1" by simp
    show ?thesis
    proof (cases o1)
      case (Returns x)
      with Pair p2 eq assms(2) [of x] show ?thesis
        by (simp add: pbind_def agree_def)
    next
      case (Raises e)
      with Pair p2 eq show ?thesis
        by (simp add: pbind_def)
    qed
  qed
qed

lemma agree_ptry:
  assumes "agree m m'" and "\<And>e. agree (h e) (h' e)"
  shows "agree (ptry m h) (ptry m' h')"
  unfolding agree_def
proof (intro allI)
  fix t1 t2
  from assms(1) have o: "fst (m t1) = fst (m' t2)"
    by (simp add: agree_def)
  show "fst (ptry m h t1) = fst (ptry m' h' t2)"
  proof (cases "m t1")
    case (Pair o1 u1)
    obtain o2 u2 where p2: "m' t2 = (o2, u2)" by (cases "m' t2")
    with Pair o have eq: "o2 = o1" by simp
    show ?thesis
    proof (cases o1)
      case (Returns x)
      with Pair p2 eq show ?thesis
        by (simp add: ptry_def)
    next
      case (Raises e)
      with Pair p2 eq assms(2) [of e] show ?thesis
        by (simp add: ptry_def agree_def)
    qed
  qed
qed

lemma agree_log_action:
  "agree (log_action w' a d s) (log_action w a' d' s')"
  by (simp add: agree_def log_action_eq)

lemma agree_run_adb: "agree (call_run_adb (w\<lparr>fs_append := f\<rparr>) args) (call_run_adb w args)"
  by (simp add: agree_def call_run_adb_def)

lemma agree_sleep: "agree (call_sleep (w\<lparr>fs_append := f\<rparr>) n) (call_sleep w n)"
  by (simp add: agree_def call_sleep_def)

lemma agree_check:
  "agree (call_check_device_connected (w\<lparr>fs_append := f\<rparr>)) (call_check_device_connected w)"
  by (simp add: agree_def call_check_device_connected_def)

lemma agree_if: "agree m m' \<Longrightarrow> agree n n' \<Longrightarrow> agree (if b then m else n) (if b then m' else n')"
  by simp

lemma agree_prod2:
  "(\<And>a b. agree (g a b) (g' a b)) \<Longrightarrow> agree (case p of (a, b) \<Rightarrow> g a b) (case p of (a, b) \<Rightarrow> g' a b)"
  by (cases p) simp

lemma agree_prod3:
  "(\<And>a b c. agree (g a b c) (g' a b c)) \<Longrightarrow>
   agree (case p of (a, b, c) \<Rightarrow> g a b c) (case p of (a, b, c) \<Rightarrow> g' a b c)"
  by (cases p) simp

lemma py_str_fs: "py_str (w\<lparr>fs_append := f\<rparr>) v = py_str w v"
  by (cases v) simp_all

lemma py_int_fs: "py_int (w\<lparr>fs_append := f\<rparr>) v = py_int w v"
proof (cases v)
  case (JFloat x)
  then show ?thesis by (cases x) simp_all
qed simp_all

lemma validate_fs: "validate_action (w\<lparr>fs_append := f\<rparr>) action = validate_action w action"
  by (simp add: validate_action_def py_str_fs Let_def cong: if_cong)

lemmas agree_intros =
  agree_pbind agree_ptry agree_if agree_prod2 agree_prod3 agree_pret agree_plift
  agree_log_action agree_run_adb agree_sleep agree_check

lemma dispatch_fs: "agree (dispatch (w\<lparr>fs_append := f\<rparr>) action a) (dispatch w action a)"
  unfolding dispatch_def py_int_fs py_str_fs
  by (intro agree_intros)

lemma on_exception_fs:
  "agree (on_exception (w\<lparr>fs_append := f\<rparr>) a e) (on_exception w a e)"
  unfolding on_exception_def py_str_fs
  by (intro agree_intros)

lemma try_dispatch_fs:
  "agree (try_dispatch (w\<lparr>fs_append := f\<rparr>) action a) (try_dispatch w action a)"
  unfolding try_dispatch_def
  by (intro agree_ptry dispatch_fs on_exception_fs)

lemma execute_action_fs:
  "agree (execute_action (w\<lparr>fs_append := f\<rparr>) action) (execute_action w action)"
proof -
  obtain b m where vm: "validate_action w action = (b, m)"
    by (cases "validate_action w action")
  show ?thesis
    unfolding execute_action_def validate_fs vm Let_def prod.case
    by (intro agree_intros try_dispatch_fs)
qed

subsection \<open>One result, and one log write exactly on the dispatch paths\<close>




subsection \<open>The connectivity gate\<close>

text \<open>
  Claim C2. For every validated action whose type is neither \<^verbatim>\<open>wait\<close> nor \<^verbatim>\<open>done\<close>, if
  the connectivity check answers false, \<^verbatim>\<open>execute_action\<close> returns the error result with
  the message \<^verbatim>\<open>No Android device connected\<close>, and the check is the only thing it did:
  no bridge command, no log write. For \<^verbatim>\<open>wait\<close> and \<^verbatim>\<open>done\<close> the check is not performed.
\<close>

theorem no_device_halts_before_dispatch:
  assumes valid: "fst (validate_action w action)"
  shows "(item action ''action'' \<notin> set [JStr ''wait'', JStr ''done'']
            \<and> check_device_connected w = Inr False \<longrightarrow>
            execute_action w action t =
              (Returns (Some [(''status'', ''error''), (''message'', ''No Android device connected'')]),
               t @ [CheckDevice]))
       \<and> (item action ''action'' \<in> set [JStr ''wait'', JStr ''done''] \<longrightarrow>
            (\<exists>out evs. execute_action w action t = (out, t @ evs) \<and> CheckDevice \<notin> set evs))"
proof -
  from valid obtain kvs s where a: "action = JDict kvs"
    and k: "map_of kvs ''action'' = Some (JStr s)"
    using validate_ok by blast
  from valid a have v: "fst (validate_action w (JDict kvs))" by simp
  note ex = execute_action_valid [OF k v]
  have 1: "item action ''action'' \<notin> set [JStr ''wait'', JStr ''done'']
            \<and> check_device_connected w = Inr False \<longrightarrow>
            execute_action w action t =
              (Returns (Some [(''status'', ''error''), (''message'', ''No Android device connected'')]),
               t @ [CheckDevice])"
    by (auto simp add: a k ex pbind_def call_check_device_connected_def pret_def error_result_def)
  have 2: "item action ''action'' \<in> set [JStr ''wait'', JStr ''done''] \<longrightarrow>
            (\<exists>out evs. execute_action w action t = (out, t @ evs) \<and> CheckDevice \<notin> set evs)"
    by (cases "time_sleep w 2")
       (auto simp add: a k ex pbind_pret try_dispatch_def ptry_def dispatch_def pbind_def
        call_sleep_def on_exception_eq log_action_eq pret_def written_no_check)
  from 1 2 show ?thesis by blast
qed

theorem no_device_halts_before_dispatch_witness:
  "fst (validate_action no_device_world (JDict [(''action'', JStr ''back'')]))
   \<and> execute_action no_device_world (JDict [(''action'', JStr ''back'')]) [] =
       (Returns (Some [(''status'', ''error''), (''message'', ''No Android device connected'')]),
        [CheckDevice])"
proof -
  have v: "fst (validate_action no_device_world (JDict [(''action'', JStr ''back'')]))"
    by (simp add: validate_action_def valid_actions_def)
  have c: "check_device_connected no_device_world = Inr False"
    by (simp add: no_device_world_def)
  from no_device_halts_before_dispatch [OF v, of "[]"] c v
  show ?thesis by simp
qed

subsection \<open>The catch-all of the dispatch block\<close>




subsection \<open>Validation of \<^verbatim>\<open>tap\<close>\<close>

text \<open>
  Claim C4. For every mapping whose \<^verbatim>\<open>action\<close> is \<^verbatim>\<open>tap\<close>, validation succeeds exactly
  when the key \<^verbatim>\<open>coordinates\<close> is present and its value is a list of exactly two values
  that pass the numeric check of line 78 (\<^verbatim>\<open>int\<close>, \<^verbatim>\<open>float\<close>, and \<^verbatim>\<open>bool\<close> as a subclass of
  \<^verbatim>\<open>int\<close>). \<^verbatim>\<open>[1, 2]\<close> and \<^verbatim>\<open>[1.5, 2.5]\<close> pass; \<^verbatim>\<open>["a", "b"]\<close>, \<^verbatim>\<open>[1]\<close> and
  \<^verbatim>\<open>[1, 2, 3]\<close> fail with a message that names the defect; a missing key fails with the
  message that the field is required.
\<close>

theorem tap_coordinates_validation:
  assumes tap: "map_of kvs ''action'' = Some (JStr ''tap'')"
  shows
  "(fst (validate_action w (JDict kvs)) =
      (\<exists>x y. map_of kvs ''coordinates'' = Some (JList [x, y])
         \<and> is_int_or_float x \<and> is_int_or_float y))
   \<and> (map_of kvs ''coordinates'' = None \<longrightarrow>
        validate_action w (JDict kvs) = (False, ''tap action requires 'coordinates' field''))
   \<and> (map_of kvs ''coordinates'' = Some (JList [JInt 1, JInt 2]) \<longrightarrow>
        validate_action w (JDict kvs) = (True, []))
   \<and> (map_of kvs ''coordinates'' = Some (JList [JFloat (Finite (3 / 2)), JFloat (Finite (5 / 2))]) \<longrightarrow>
        validate_action w (JDict kvs) = (True, []))
   \<and> (map_of kvs ''coordinates'' = Some (JList [JStr ''a'', JStr ''b'']) \<longrightarrow>
        validate_action w (JDict kvs) = (False, ''coordinates must be numeric''))
   \<and> (map_of kvs ''coordinates'' = Some (JList [JInt 1]) \<longrightarrow>
        validate_action w (JDict kvs) = (False, ''coordinates must be [x, y] array''))
   \<and> (map_of kvs ''coordinates'' = Some (JList [JInt 1, JInt 2, JInt 3]) \<longrightarrow>
        validate_action w (JDict kvs) = (False, ''coordinates must be [x, y] array''))"
proof -
  note v = validate_tap [OF tap, of w]
  have iff: "fst (validate_action w (JDict kvs)) =
      (\<exists>x y. map_of kvs ''coordinates'' = Some (JList [x, y])
         \<and> is_int_or_float x \<and> is_int_or_float y)"
  proof (cases "map_of kvs ''coordinates''")
    case None
    then show ?thesis by (simp add: v)
  next
    case (Some c)
    show ?thesis
    proof (cases "\<exists>x y. c = JList [x, y]")
      case True
      then obtain x y where "c = JList [x, y]" by blast
      then show ?thesis by (simp add: v Some)
    next
      case False
      then have "\<not> (is_list c \<and> py_len c = 2)" by (simp only: is_list_len2) simp
      with False show ?thesis by (auto simp add: v Some)
    qed
  qed
  show ?thesis
    apply (rule conjI [OF iff])
    apply (simp add: v)
    done
qed

theorem tap_coordinates_validation_witness:
  "map_of [(''action'', JStr ''tap''), (''coordinates'', JList [JInt 1, JInt 2])] ''action''
     = Some (JStr ''tap'')
   \<and> validate_action example_world
        (JDict [(''action'', JStr ''tap''), (''coordinates'', JList [JInt 1, JInt 2])]) = (True, [])"
  using tap_coordinates_validation
    [of "[(''action'', JStr ''tap''), (''coordinates'', JList [JInt 1, JInt 2])]" example_world]
  by simp

subsection \<open>The payload of \<^verbatim>\<open>type\<close>\<close>



subsection \<open>\<^verbatim>\<open>done\<close>\<close>

text \<open>
  Claim C7. For every input dictionary whose \<^verbatim>\<open>action\<close> is \<^verbatim>\<open>done\<close>, whatever other fields
  it has, in every environment and from every trace: \<^verbatim>\<open>execute_action\<close> returns exactly the
  success result of \<^verbatim>\<open>done\<close> with the message \<^verbatim>\<open>Goal achieved - task complete\<close>, and
  the only events are those of the one log write: no connectivity check and no bridge
  command. The result is the same value for every environment, so repeating the invocation
  gives it again, whatever the state of the device.
\<close>

theorem done_needs_no_device:
  assumes "map_of kvs ''action'' = Some (JStr ''done'')"
  shows "execute_action w (JDict kvs) t =
     (Returns (Some [(''status'', ''success''), (''action'', ''done''),
                     (''message'', ''Goal achieved - task complete'')]),
      t @ written w (log_entry w ''done'' [] ''SUCCESS''))"
proof -
  have v: "fst (validate_action w (JDict kvs))"
    using assms by (simp add: validate_action_def valid_actions_def)
  show ?thesis
    by (simp add: execute_action_valid [OF assms v] pbind_pret try_dispatch_def ptry_def
        dispatch_def pbind_def log_action_eq pret_def success_result_def)
qed

text \<open>With an extra field, no device connected, after an earlier invocation.\<close>

theorem done_needs_no_device_witness:
  "map_of [(''action'', JStr ''done''), (''reason'', JStr ''finished'')] ''action''
     = Some (JStr ''done'')
   \<and> execute_action no_device_world
        (JDict [(''action'', JStr ''done''), (''reason'', JStr ''finished'')]) [CheckDevice] =
       (Returns (Some [(''status'', ''success''), (''action'', ''done''),
                       (''message'', ''Goal achieved - task complete'')]),
        [CheckDevice,
         LogAttempt (log_entry no_device_world ''done'' [] ''SUCCESS''),
         LogWritten (log_entry no_device_world ''done'' [] ''SUCCESS'')])"
proof -
  have f: "fs_append no_device_world entry = None" for entry
    by (simp add: no_device_world_def example_world_def)
  from done_needs_no_device
    [of "[(''action'', JStr ''done''), (''reason'', JStr ''finished'')]" no_device_world
        "[CheckDevice]"]
  show ?thesis by (simp add: written_def f)
qed

subsection \<open>A failing log write\<close>

text \<open>
  Claim C8. \<^verbatim>\<open>log_action\<close> returns normally on every input, whatever the file system does
  with the write; and the outcome of \<^verbatim>\<open>execute_action\<close> (the result it returns) does not
  depend on the file system: replacing the behaviour of the log write by any other, failing
  or not, leaves it unchanged.
\<close>

theorem logging_failure_swallowed:
  "(\<exists>t'. log_action w a d s t = (Returns (), t')) \<and>
   fst (execute_action (w\<lparr>fs_append := f\<rparr>) action t) = fst (execute_action w action t)"
proof -
  have 1: "\<exists>t'. log_action w a d s t = (Returns (), t')"
    by (simp add: log_action_eq)
  have 2: "fst (execute_action (w\<lparr>fs_append := f\<rparr>) action t) = fst (execute_action w action t)"
    using execute_action_fs [where w = w and f = f and action = action]
    by (simp add: agree_def)
  from 1 2 show ?thesis by blast
qed

subsection \<open>Boolean coordinates\<close>

text \<open>
  Claim C10. For the input \<^verbatim>\<open>{"action": "tap", "coordinates": [true, false]}\<close> validation
  succeeds, and with a device connected and the tap command exiting with 0 the command is
  a tap at \<^verbatim>\<open>1 0\<close> and the result is the success result with the message
  \<^verbatim>\<open>Tapped at (1, 0)\<close>: the booleans are converted to the integers 1 and 0.
\<close>

theorem boolean_coordinates_accepted:
  assumes act: "map_of kvs ''action'' = Some (JStr ''tap'')"
    and co: "map_of kvs ''coordinates'' = Some (JList [JBool True, JBool False])"
    and dev: "check_device_connected w = Inr True"
    and adb: "run_adb w [''shell'', ''input'', ''tap'', ''1'', ''0''] = Inr (out, err, 0)"
  shows "validate_action w (JDict kvs) = (True, [])
   \<and> execute_action w (JDict kvs) t =
     (Returns (Some [(''status'', ''success''), (''action'', ''tap''),
                     (''message'', ''Tapped at (1, 0)'')]),
      t @ [CheckDevice, RunAdb [''shell'', ''input'', ''tap'', ''1'', ''0'']]
        @ written w (log_entry w ''tap'' ''1,0'' ''SUCCESS''))"
proof -
  have v: "validate_action w (JDict kvs) = (True, [])"
    using act co by (simp add: validate_action_def valid_actions_def)
  then have v': "fst (validate_action w (JDict kvs))" by simp
  have "execute_action w (JDict kvs) t =
     (Returns (Some [(''status'', ''success''), (''action'', ''tap''),
                     (''message'', ''Tapped at (1, 0)'')]),
      t @ [CheckDevice, RunAdb [''shell'', ''input'', ''tap'', ''1'', ''0'']]
        @ written w (log_entry w ''tap'' ''1,0'' ''SUCCESS''))"
    using co dev adb
    by (simp add: execute_action_valid [OF act v'] try_dispatch_def ptry_def dispatch_def
        pbind_def plift_def call_check_device_connected_def call_run_adb_def log_action_eq pret_def
        success_result_def unpack2_def str_int_1 str_int_0)
  with v show ?thesis by simp
qed

theorem boolean_coordinates_accepted_witness:
  "check_device_connected example_world = Inr True
   \<and> run_adb example_world [''shell'', ''input'', ''tap'', ''1'', ''0''] = Inr ([], [], 0)
   \<and> validate_action example_world
        (JDict [(''action'', JStr ''tap''), (''coordinates'', JList [JBool True, JBool False])])
       = (True, [])
   \<and> fst (execute_action example_world
        (JDict [(''action'', JStr ''tap''), (''coordinates'', JList [JBool True, JBool False])]) [])
       = Returns (Some [(''status'', ''success''), (''action'', ''tap''),
                        (''message'', ''Tapped at (1, 0)'')])"
proof -
  have c: "check_device_connected example_world = Inr True"
    by (simp add: example_world_def)
  have r: "run_adb example_world args = Inr ([], [], 0)" for args
    by (simp add: example_world_def)
  from boolean_coordinates_accepted
    [of "[(''action'', JStr ''tap''), (''coordinates'', JList [JBool True, JBool False])]"
        example_world "[]" "[]" "[]", OF _ _ c r]
  show ?thesis using c r by simp
qed

subsection \<open>The entry point\<close>

lemma read_action_json_flag:
  "s \<noteq> [] \<Longrightarrow> read_action_json (Some s) stdin t = (Returns s, t)"
  by (simp add: read_action_json_def pret_def)

lemma read_action_json_stdin:
  "json_flag = None \<or> json_flag = Some [] \<Longrightarrow>
   read_action_json json_flag stdin t = (Returns (py_strip stdin), t @ [ReadStdin])"
  by (auto simp add: read_action_json_def pbind_def emit_def pret_def)


lemma main_no_input:
  assumes "read_action_json json_flag stdin t = (Returns [], t1)"
  shows "main w json_flag stdin t =
           (Exit 1, t1 @ [Print (Some (error_result no_action_message)) None])"
  using assms by (simp add: main_def)







text \<open>
  Claim C9, as the code has it. A flag that holds only white space is not trimmed: it is
  not empty for the test of line 249, so the parser is called on it and the message is the
  parser's. A flag that is given but empty counts as absent: standard input is read and
  used instead.
\<close>

theorem json_flag_not_trimmed:
  "py_strip ''   '' = []
   \<and> main example_world (Some ''   '') [] [] =
       (Exit 1, [JsonLoads ''   '',
                 Print (Some [(''status'', ''error''),
                              (''message'', ''Invalid JSON: Expecting value'')]) None])
   \<and> main example_world (Some []) ''{}'' [] =
       (Exit 3, [ReadStdin, JsonLoads ''{}'',
                 Print (Some [(''status'', ''error''),
                              (''message'', ''Missing 'action' field'')]) (Some 2)])"
proof -
  have 1: "py_strip ''   '' = []"
    by (simp add: py_strip_def is_space_def)
  have 2: "main example_world (Some ''   '') [] [] =
       (Exit 1, [JsonLoads ''   '',
                 Print (Some [(''status'', ''error''),
                              (''message'', ''Invalid JSON: Expecting value'')]) None])"
    by (simp add: main_def read_action_json_def pret_def example_world_def done_json_def
        home_json_def error_result_def)
  have s: "py_strip ''{}'' = ''{}''"
    by (simp add: py_strip_def is_space_def)
  have 3: "main example_world (Some []) ''{}'' [] =
       (Exit 3, [ReadStdin, JsonLoads ''{}'',
                 Print (Some [(''status'', ''error''),
                              (''message'', ''Missing 'action' field'')]) (Some 2)])"
    by (simp add: main_def read_action_json_def pbind_def emit_def pret_def s example_world_def
        done_json_def home_json_def execute_action_def validate_action_def error_result_def
        exit_for_def)
  from 1 2 3 show ?thesis by blast
qed

text \<open>
  Claim C9, amended. The entry point takes the action string from the \<^verbatim>\<open>--json\<close> flag when
  the flag is given and not empty, as it is (not trimmed) and without reading standard
  input; otherwise it reads standard input to completion and trims it. When the string so
  obtained is empty, the entry point prints the error result with the message
  \<^verbatim>\<open>No action provided. Use --json flag or pipe JSON via stdin\<close> and exits with status 1,
  and the parser is not called.
\<close>

theorem main_input_selection:
  "(\<forall>s. json_flag = Some s \<and> s \<noteq> [] \<longrightarrow>
        read_action_json json_flag stdin t = (Returns s, t))
   \<and> (json_flag = None \<or> json_flag = Some [] \<longrightarrow>
        read_action_json json_flag stdin t = (Returns (py_strip stdin), t @ [ReadStdin]))
   \<and> (fst (read_action_json json_flag stdin t) = Returns [] \<longrightarrow>
        main w json_flag stdin t =
          (Exit 1, t @ [ReadStdin,
                        Print (Some [(''status'', ''error''),
                                     (''message'', ''No action provided. Use --json flag or pipe JSON via stdin'')])
                          None]))"
proof -
  have 1: "\<forall>s. json_flag = Some s \<and> s \<noteq> [] \<longrightarrow>
        read_action_json json_flag stdin t = (Returns s, t)"
    by (simp add: read_action_json_flag)
  have 2: "json_flag = None \<or> json_flag = Some [] \<longrightarrow>
        read_action_json json_flag stdin t = (Returns (py_strip stdin), t @ [ReadStdin])"
    using read_action_json_stdin by blast
  have 3: "fst (read_action_json json_flag stdin t) = Returns [] \<longrightarrow>
        main w json_flag stdin t =
          (Exit 1, t @ [ReadStdin,
                        Print (Some [(''status'', ''error''),
                                     (''message'', ''No action provided. Use --json flag or pipe JSON via stdin'')])
                          None])"
  proof
    assume e: "fst (read_action_json json_flag stdin t) = Returns []"
    have "json_flag = None \<or> json_flag = Some []"
    proof (rule ccontr)
      assume "\<not> (json_flag = None \<or> json_flag = Some [])"
      then obtain s where "json_flag = Some s" "s \<noteq> []" by auto
      with e show False by (simp add: read_action_json_flag)
    qed
    then have rd: "read_action_json json_flag stdin t = (Returns (py_strip stdin), t @ [ReadStdin])"
      by (rule read_action_json_stdin)
    with e have "py_strip stdin = []" by simp
    with rd have "read_action_json json_flag stdin t = (Returns [], t @ [ReadStdin])" by simp
    from main_no_input [OF this] show "main w json_flag stdin t =
          (Exit 1, t @ [ReadStdin,
                        Print (Some [(''status'', ''error''),
                                     (''message'', ''No action provided. Use --json flag or pipe JSON via stdin'')])
                          None])"
      by (simp add: error_result_def no_action_message_def)
  qed
  from 1 2 3 show ?thesis by blast
qed

text \<open>No flag, and only white space on standard input.\<close>

theorem main_input_selection_witness:
  "fst (read_action_json None [CHR '' '', CHR 0x0A] []) = Returns []
   \<and> main example_world None [CHR '' '', CHR 0x0A] [] =
       (Exit 1, [ReadStdin,
                 Print (Some [(''status'', ''error''),
                              (''message'', ''No action provided. Use --json flag or pipe JSON via stdin'')])
                   None])"
proof -
  have s: "py_strip [CHR '' '', CHR 0x0A] = []"
    by (simp add: py_strip_def is_space_def)
  have e: "fst (read_action_json None [CHR '' '', CHR 0x0A] []) = Returns []"
    by (simp add: read_action_json_def pbind_def emit_def pret_def s)
  from main_input_selection [of None "[CHR '' '', CHR 0x0A]" "[]" example_world] e
  show ?thesis by simp
qed

end
